theory Spec2Isabelle
  imports Complex_Main
begin

section \<open>The order pipeline of \<open>BasicBot.place_order\<close> (bot.py)\<close>

text \<open>
  The development embeds \<open>BasicBot.place_order\<close> and the helpers it calls.
  Conventions of the embedding:
  \<^item> Python \<open>float\<close> values (quantity, price, balances, market price) are
    \<open>real\<close> numbers. The price check of lines 201 to 203 compares at the exact
    boundary of 20 percent, so its arithmetic is computed as Python computes it: every
    operation is rounded to the nearest binary64 number, ties to even (\<open>double\<close>
    below; overflow to infinity and NaN are not represented). The arithmetic of the
    balance check (lines 170, 173 and 176) is kept exact.
    Float division by zero raises \<open>ZeroDivisionError\<close> and is a branch of the model.
  \<^item> Strings are \<open>char list\<close>s of ASCII text; \<open>str.upper\<close> maps the letters
    \<open>a\<close>..\<open>z\<close> to \<open>A\<close>..\<open>Z\<close> and leaves every other character alone.
  \<^item> The exchange client is a record of responses; every call made on it is appended
    to a trace, so that the order of gateway calls is observable.
  \<^item> \<open>float(balance['free'])\<close> is taken as done: a balance row carries its
    \<open>free\<close> and \<open>locked\<close> amounts as numbers.
  \<^item> Log output is not modelled.
\<close>

subsection \<open>Strings: \<open>upper\<close>, \<open>endswith\<close> and slices\<close>

definition upper_table :: "(char \<times> char) list" where
  "upper_table = zip ''abcdefghijklmnopqrstuvwxyz'' ''ABCDEFGHIJKLMNOPQRSTUVWXYZ''"

definition upper_char :: "char \<Rightarrow> char" where
  "upper_char c = (case map_of upper_table c of None \<Rightarrow> c | Some d \<Rightarrow> d)"

definition upper :: "string \<Rightarrow> string" where
  "upper s = map upper_char s"

definition endswith :: "string \<Rightarrow> string \<Rightarrow> bool" where
  "endswith s suf = (length suf \<le> length s \<and> drop (length s - length suf) s = suf)"

text \<open>
  Python's \<open>s[:k]\<close> and \<open>s[k:]\<close> for an integer \<open>k\<close>: a negative bound counts
  from the end of the string, and every bound is clamped to \<open>0..len(s)\<close>.
\<close>

definition slice_bound :: "'a list \<Rightarrow> int \<Rightarrow> nat" where
  "slice_bound s k = (if k < 0 then nat (int (length s) + k) else nat k)"

definition slice_to :: "'a list \<Rightarrow> int \<Rightarrow> 'a list" where
  "slice_to s k = take (slice_bound s k) s"

definition slice_from :: "'a list \<Rightarrow> int \<Rightarrow> 'a list" where
  "slice_from s k = drop (slice_bound s k) s"

subsection \<open>Asset pair of a symbol (bot.py, lines 154, 155 and 182)\<close>

definition quote_asset_of :: "string \<Rightarrow> string" where
  "quote_asset_of symbol =
     (if endswith symbol ''USDT'' then slice_from symbol (int (length symbol) - 4)
      else ''USDT'')"

definition base_asset_of :: "string \<Rightarrow> string" where
  "base_asset_of symbol =
     (if endswith symbol ''USDT'' then slice_to symbol (int (length symbol) - 4)
      else slice_to symbol (int (length symbol) - 3))"

subsection \<open>Exchange client, its calls and the exceptions of the pipeline\<close>

record balance =
  asset :: string
  free :: real
  locked :: real

record order_params =
  p_symbol :: string
  p_side :: string
  p_type :: string
  p_quantity :: real
  p_price :: "real option"
  p_timeInForce :: "string option"
  p_stopPrice :: "real option"

record order_response =
  orderId :: int

type_synonym order_details = "(string \<times> string) list"

datatype client_exn =
    BinanceAPIException string int
  | BinanceOrderException string int
  | OtherException string

record client =
  get_account :: "client_exn + balance list"
  get_symbol_ticker :: "string \<Rightarrow> client_exn + real"
  create_order :: "order_params \<Rightarrow> client_exn + order_response"
  get_order :: "string \<Rightarrow> int \<Rightarrow> client_exn + order_details"

datatype call =
    Call_get_account
  | Call_get_symbol_ticker string
  | Call_create_order order_params
  | Call_get_order string int

text \<open>
  The exceptions raised inside the \<open>try\<close> block of \<open>place_order\<close>:
  \<^item> \<open>ValueError_side\<close>: \<open>ValueError("Side must be 'BUY' or 'SELL'")\<close>;
  \<^item> \<open>ValueError_order_type\<close>: \<open>ValueError("Order type must be one of: ...")\<close>;
  \<^item> \<open>ValueError_price_required\<close>: \<open>ValueError("Price is required for LIMIT orders")\<close>;
  \<^item> \<open>ValueError_stop_price_required t\<close>:
    \<open>ValueError("Stop price is required for t orders")\<close>;
  \<^item> \<open>TypeError\<close>: \<open>quantity * price\<close> with \<open>price\<close> being \<open>None\<close>;
  \<^item> \<open>ZeroDivisionError\<close>: a float division by zero;
  \<^item> \<open>Insufficient_balance_buy held quote required max_possible base\<close>: the
    \<open>Exception\<close> of lines 176 to 179, with the values its message interpolates;
  \<^item> \<open>Insufficient_balance_sell held base quantity\<close>: the \<open>Exception\<close> of
    lines 194 to 196;
  \<^item> \<open>Price_too_far price current min_price max_price\<close>: the \<open>Exception\<close> of
    lines 204 to 208;
  \<^item> \<open>Client e\<close>: an exception raised by the exchange client.
\<close>

datatype exn =
    ValueError_side
  | ValueError_order_type
  | ValueError_price_required
  | ValueError_stop_price_required string
  | TypeError
  | ZeroDivisionError
  | Insufficient_balance_buy real string real real string
  | Insufficient_balance_sell real string real
  | Price_too_far real real real real
  | Client client_exn

text \<open>
  What the three \<open>except\<close> clauses of \<open>place_order\<close> re-raise:
  \<open>"Binance API error: m (Code: c)"\<close>, \<open>"Order error: m (Code: c)"\<close> and
  \<open>"Failed to place order: " + str(e)\<close>.
\<close>

datatype order_error =
    Binance_API_error string int
  | Order_error string int
  | Failed_to_place_order exn

subsection \<open>Computations that call the client and may raise\<close>

type_synonym 'a io = "call list \<times> (exn + 'a)"

definition ret :: "'a \<Rightarrow> 'a io" where
  "ret x = ([], Inr x)"

definition raise :: "exn \<Rightarrow> 'a io" where
  "raise e = ([], Inl e)"

definition and_then :: "'a io \<Rightarrow> ('a \<Rightarrow> 'b io) \<Rightarrow> 'b io" where
  "and_then m f =
     (case m of
        (t, Inl e) \<Rightarrow> (t, Inl e)
      | (t, Inr x) \<Rightarrow> (case f x of (t', r) \<Rightarrow> (t @ t', r)))"

definition pure_step :: "exn + 'a \<Rightarrow> 'a io" where
  "pure_step r = ([], r)"

definition client_call :: "call \<Rightarrow> client_exn + 'a \<Rightarrow> 'a io" where
  "client_call c r = ([c], (case r of Inl e \<Rightarrow> Inl (Client e) | Inr x \<Rightarrow> Inr x))"

definition get_current_price :: "client \<Rightarrow> string \<Rightarrow> real io" where
  "get_current_price cl symbol =
     client_call (Call_get_symbol_ticker (upper symbol)) (get_symbol_ticker cl (upper symbol))"

definition get_order_details :: "client \<Rightarrow> string \<Rightarrow> int \<Rightarrow> order_details io" where
  "get_order_details cl symbol order_id =
     client_call (Call_get_order (upper symbol) order_id) (get_order cl (upper symbol) order_id)"

subsection \<open>Balance check (lines 151 to 196)\<close>

text \<open>The loop over \<open>account_info['balances']\<close>: the first row of the asset, else 0.\<close>

fun free_balance :: "string \<Rightarrow> balance list \<Rightarrow> real" where
  "free_balance a [] = 0"
| "free_balance a (b # bs) = (if asset b = a then free b else free_balance a bs)"

text \<open>Lines 175 to 179, given the balance, the price divided by and the amount required.\<close>

definition buy_guard :: "string \<Rightarrow> string \<Rightarrow> real \<Rightarrow> real \<Rightarrow> real \<Rightarrow> exn + unit" where
  "buy_guard quote_asset base_asset quote_balance reference_price required_amount =
     (if quote_balance < required_amount then
        (if reference_price = 0 then Inl ZeroDivisionError
         else Inl (Insufficient_balance_buy quote_balance quote_asset required_amount
                     (quote_balance / reference_price) base_asset))
      else Inr ())"

text \<open>Lines 193 to 196.\<close>

definition sell_guard :: "string \<Rightarrow> real \<Rightarrow> real \<Rightarrow> exn + unit" where
  "sell_guard base_asset base_balance quantity =
     (if base_balance < quantity then
        Inl (Insufficient_balance_sell base_balance base_asset quantity)
      else Inr ())"

definition check_balance ::
  "client \<Rightarrow> string \<Rightarrow> string \<Rightarrow> string \<Rightarrow> real \<Rightarrow> real option \<Rightarrow> unit io" where
  "check_balance cl symbol side order_type quantity price =
     (if side = ''BUY'' then
        (let quote_asset = quote_asset_of symbol;
             base_asset = base_asset_of symbol
         in and_then (client_call Call_get_account (get_account cl)) (\<lambda>balances.
            let quote_balance = free_balance quote_asset balances
            in and_then
                 (if order_type = ''MARKET'' then
                    and_then (get_current_price cl symbol) (\<lambda>current_price.
                      ret (current_price, quantity * current_price * 1.01))
                  else
                    (case price of
                       None \<Rightarrow> raise TypeError
                     | Some p \<Rightarrow> ret (p, quantity * p)))
                 (\<lambda>(reference_price, required_amount).
                    pure_step (buy_guard quote_asset base_asset quote_balance
                                 reference_price required_amount))))
      else
        (let base_asset = base_asset_of symbol
         in and_then (client_call Call_get_account (get_account cl)) (\<lambda>balances.
            let base_balance = free_balance base_asset balances
            in pure_step (sell_guard base_asset base_balance quantity))))"

subsection \<open>Binary64 arithmetic\<close>

text \<open>
  Rounding of a real number to an integer, to the nearest one and to the even one when
  two are equally near.
\<close>

definition round_half_even :: "real \<Rightarrow> int" where
  "round_half_even x =
     (let n = \<lfloor>x\<rfloor>; r = x - of_int n
      in if r < 1 / 2 then n else if 1 / 2 < r then n + 1 else if even n then n else n + 1)"

text \<open>
  The binary exponent of a positive number \<open>x\<close>, that is the \<open>e\<close> with
  \<open>2 ^ e \<le> x < 2 ^ (e + 1)\<close>, found by halving or doubling at most 1100 times,
  which covers the exponents of binary64 (from -1074 to 1023).
\<close>

fun exponent_up :: "nat \<Rightarrow> real \<Rightarrow> int" where
  "exponent_up 0 x = 0"
| "exponent_up (Suc k) x = (if x < 2 then 0 else exponent_up k (x / 2) + 1)"

fun exponent_down :: "nat \<Rightarrow> real \<Rightarrow> int" where
  "exponent_down 0 x = 0"
| "exponent_down (Suc k) x = (if 1 \<le> x then 0 else exponent_down k (x * 2) - 1)"

definition exponent :: "real \<Rightarrow> int" where
  "exponent x = (if 1 \<le> x then exponent_up 1100 x else exponent_down 1100 x)"

definition pow2 :: "int \<Rightarrow> real" where
  "pow2 e = (if 0 \<le> e then 2 ^ nat e else 1 / 2 ^ nat (- e))"

text \<open>
  The binary64 number nearest to \<open>x\<close>: 53 significant bits, so the last bit of a
  number of exponent \<open>e\<close> is worth \<open>2 ^ (e - 52)\<close>; below \<open>2 ^ -1022\<close> the spacing
  stays \<open>2 ^ -1074\<close> (subnormal numbers). A float literal of the source, such as
  \<open>0.8\<close>, denotes \<open>double 0.8\<close>.
\<close>

definition double :: "real \<Rightarrow> real" where
  "double x =
     (if x = 0 then 0
      else let u = pow2 (max (exponent \<bar>x\<bar>) (- 1022) - 52)
           in sgn x * of_int (round_half_even (\<bar>x\<bar> / u)) * u)"

text \<open>Python's \<open>-\<close>, \<open>*\<close> and \<open>/\<close> on floats (the divisor not being zero).\<close>

definition float_sub :: "real \<Rightarrow> real \<Rightarrow> real" where
  "float_sub a b = double (a - b)"

definition float_mul :: "real \<Rightarrow> real \<Rightarrow> real" where
  "float_mul a b = double (a * b)"

definition float_div :: "real \<Rightarrow> real \<Rightarrow> real" where
  "float_div a b = double (a / b)"

subsection \<open>Price check for LIMIT orders (lines 198 to 208)\<close>

text \<open>Line 201: \<open>abs(price - current_price) / current_price * 100\<close>.\<close>

definition price_deviation :: "real \<Rightarrow> real \<Rightarrow> real" where
  "price_deviation price current_price =
     float_mul (float_div \<bar>float_sub price current_price\<bar> current_price) 100"

definition price_guard :: "real \<Rightarrow> real \<Rightarrow> exn + unit" where
  "price_guard price current_price =
     (if current_price = 0 then Inl ZeroDivisionError
      else if price_deviation price current_price > 20 then
        Inl (Price_too_far price current_price
               (float_mul current_price (double 0.8)) (float_mul current_price (double 1.2)))
      else Inr ())"

definition check_price :: "client \<Rightarrow> string \<Rightarrow> string \<Rightarrow> real option \<Rightarrow> unit io" where
  "check_price cl symbol order_type price =
     (case price of
        Some p \<Rightarrow>
          (if order_type = ''LIMIT'' then
             and_then (get_current_price cl symbol) (\<lambda>current_price.
               pure_step (price_guard p current_price))
           else ret ())
      | None \<Rightarrow> ret ())"

subsection \<open>Order parameters (lines 210 to 229)\<close>

definition stop_order_types :: "string list" where
  "stop_order_types = [''STOP'', ''STOP_MARKET'', ''TAKE_PROFIT'', ''TAKE_PROFIT_MARKET'']"

definition build_order_params ::
  "string \<Rightarrow> string \<Rightarrow> string \<Rightarrow> real \<Rightarrow> real option \<Rightarrow> real option \<Rightarrow> string
     \<Rightarrow> exn + order_params" where
  "build_order_params symbol side order_type quantity price stop_price time_in_force =
     (let order_params =
            \<lparr>p_symbol = symbol, p_side = side, p_type = order_type, p_quantity = quantity,
             p_price = None, p_timeInForce = None, p_stopPrice = None\<rparr>
      in case (if order_type = ''LIMIT'' then
                 (case price of
                    None \<Rightarrow> Inl ValueError_price_required
                  | Some p \<Rightarrow>
                      Inr (order_params\<lparr>p_price := Some p,
                                         p_timeInForce := Some time_in_force\<rparr>))
               else Inr order_params) of
           Inl e \<Rightarrow> Inl e
         | Inr order_params \<Rightarrow>
             (if order_type \<in> set stop_order_types then
                (case stop_price of
                   None \<Rightarrow> Inl (ValueError_stop_price_required order_type)
                 | Some sp \<Rightarrow> Inr (order_params\<lparr>p_stopPrice := Some sp\<rparr>))
              else Inr order_params))"

subsection \<open>\<open>place_order\<close> (lines 113 to 263)\<close>

definition valid_order_types :: "string list" where
  "valid_order_types =
     [''MARKET'', ''LIMIT'', ''STOP'', ''STOP_MARKET'', ''TAKE_PROFIT'', ''TAKE_PROFIT_MARKET'']"

text \<open>The body of the \<open>try\<close> block.\<close>

definition place_order_try ::
  "client \<Rightarrow> string \<Rightarrow> string \<Rightarrow> string \<Rightarrow> real \<Rightarrow> real option \<Rightarrow> real option \<Rightarrow> string
     \<Rightarrow> (order_response \<times> order_details) io" where
  "place_order_try cl symbol0 side0 order_type0 quantity price stop_price time_in_force =
     (let symbol = upper symbol0;
          side = upper side0;
          order_type = upper order_type0
      in if side \<notin> set [''BUY'', ''SELL''] then raise ValueError_side
         else if order_type \<notin> set valid_order_types then raise ValueError_order_type
         else
           and_then (check_balance cl symbol side order_type quantity price) (\<lambda>_.
           and_then (check_price cl symbol order_type price) (\<lambda>_.
           and_then (pure_step (build_order_params symbol side order_type quantity
                                  price stop_price time_in_force)) (\<lambda>order_params.
           and_then (client_call (Call_create_order order_params)
                       (create_order cl order_params)) (\<lambda>order_response.
           and_then (get_order_details cl symbol (orderId order_response)) (\<lambda>order_details.
           ret (order_response, order_details)))))))"

text \<open>The \<open>except\<close> clauses, in the order of the source.\<close>

fun handle :: "exn \<Rightarrow> order_error" where
  "handle (Client (BinanceAPIException m c)) = Binance_API_error m c"
| "handle (Client (BinanceOrderException m c)) = Order_error m c"
| "handle e = Failed_to_place_order e"

definition place_order ::
  "client \<Rightarrow> string \<Rightarrow> string \<Rightarrow> string \<Rightarrow> real \<Rightarrow> real option \<Rightarrow> real option \<Rightarrow> string
     \<Rightarrow> call list \<times> (order_error + order_response \<times> order_details)" where
  "place_order cl symbol side order_type quantity price stop_price time_in_force =
     (case place_order_try cl symbol side order_type quantity price stop_price time_in_force of
        (t, Inl e) \<Rightarrow> (t, Inl (handle e))
      | (t, Inr r) \<Rightarrow> (t, Inr r))"

subsection \<open>Reading traces and exceptions\<close>

text \<open>Calls that only read from the exchange, and the call that submits an order.\<close>

fun is_query :: "call \<Rightarrow> bool" where
  "is_query Call_get_account = True"
| "is_query (Call_get_symbol_ticker s) = True"
| "is_query (Call_create_order ps) = False"
| "is_query (Call_get_order s i) = False"

fun is_create_order :: "call \<Rightarrow> bool" where
  "is_create_order (Call_create_order ps) = True"
| "is_create_order c = False"

text \<open>
  The exceptions \<open>place_order\<close> raises itself to reject an order: bad side or type,
  missing price or stop price, insufficient balance, price too far from the market.
\<close>

fun is_validation_error :: "exn \<Rightarrow> bool" where
  "is_validation_error ValueError_side = True"
| "is_validation_error ValueError_order_type = True"
| "is_validation_error ValueError_price_required = True"
| "is_validation_error (ValueError_stop_price_required t) = True"
| "is_validation_error (Insufficient_balance_buy h qa r m ba) = True"
| "is_validation_error (Insufficient_balance_sell h ba q) = True"
| "is_validation_error (Price_too_far p c lo hi) = True"
| "is_validation_error e = False"

text \<open>The format \<open>:.6f\<close>: the nearest number with six decimals.\<close>

definition format_6f :: "real \<Rightarrow> real" where
  "format_6f x = of_int (round_half_even (x * 1000000)) / 1000000"

text \<open>
  What the two insufficient-balance messages show, in the order
  (asset held, amount held, amount required, quantity suggested): lines 177, 178 for a
  BUY, where \<open>max_possible\<close> is shown as \<open>{max_possible:.6f}\<close>; lines 194, 195 for
  a SELL, whose message suggests \<open>base_balance\<close> itself.
\<close>

fun balance_diagnostic :: "exn \<Rightarrow> (string \<times> real \<times> real \<times> real) option" where
  "balance_diagnostic (Insufficient_balance_buy held quote_asset required max_possible base_asset) =
     Some (quote_asset, held, required, format_6f max_possible)"
| "balance_diagnostic (Insufficient_balance_sell held base_asset quantity) =
     Some (base_asset, held, quantity, held)"
| "balance_diagnostic e = None"

text \<open>
  An exchange client that answers every call: the given balances, the given price for
  every symbol, order id 1 for every order, and no details.
\<close>

definition fixed_client :: "balance list \<Rightarrow> real \<Rightarrow> client" where
  "fixed_client balances current_price =
     \<lparr>get_account = Inr balances,
      get_symbol_ticker = (\<lambda>symbol. Inr current_price),
      create_order = (\<lambda>order_params. Inr \<lparr>orderId = 1\<rparr>),
      get_order = (\<lambda>symbol order_id. Inr [])\<rparr>"

section \<open>Auxiliary facts\<close>

subsection \<open>Evaluation\<close>

lemmas eval_defs =
  place_order_def place_order_try_def check_balance_def check_price_def build_order_params_def
  get_current_price_def get_order_details_def pure_step_def ret_def raise_def Let_def
  fixed_client_def quote_asset_of_def base_asset_of_def endswith_def
  slice_to_def slice_from_def slice_bound_def buy_guard_def sell_guard_def
  upper_def upper_char_def upper_table_def valid_order_types_def
  stop_order_types_def

lemma exponent_up_numeral:
  "exponent_up (numeral k) x =
     (if x < 2 then 0 else exponent_up (pred_numeral k) (x / 2) + 1)"
  by (simp add: numeral_eq_Suc)

lemma exponent_down_numeral:
  "exponent_down (numeral k) x =
     (if 1 \<le> x then 0 else exponent_down (pred_numeral k) (x * 2) - 1)"
  by (simp add: numeral_eq_Suc)

lemmas float_defs =
  double_def exponent_def pow2_def round_half_even_def Let_def
  float_sub_def float_mul_def float_div_def price_deviation_def
  exponent_up_numeral exponent_down_numeral

subsection \<open>Binary64 arithmetic\<close>

text \<open>The exponent found is the binary exponent, within the range searched.\<close>

lemma exponent_up_bounds:
  "1 \<le> x \<Longrightarrow> x < 2 ^ k \<Longrightarrow>
   0 \<le> exponent_up k x \<and> 2 ^ nat (exponent_up k x) \<le> x \<and> x < 2 * 2 ^ nat (exponent_up k x)"
proof (induction k arbitrary: x)
  case 0
  then show ?case by simp
next
  case (Suc k)
  show ?case
  proof (cases "x < 2")
    case True
    with Suc.prems show ?thesis by simp
  next
    case False
    with Suc.prems have "1 \<le> x / 2" "x / 2 < 2 ^ k"
      by simp_all
    from Suc.IH [OF this] False show ?thesis
      by (simp add: nat_add_distrib)
  qed
qed

lemma exponent_down_one: "1 \<le> x \<Longrightarrow> exponent_down k x = 0"
  by (cases k) simp_all

lemma exponent_down_bounds:
  "0 < x \<Longrightarrow> x < 1 \<Longrightarrow> 1 \<le> x * 2 ^ k \<Longrightarrow>
   exponent_down k x < 0 \<and> 1 \<le> x * 2 ^ nat (- exponent_down k x) \<and>
   x * 2 ^ nat (- exponent_down k x) < 2"
proof (induction k arbitrary: x)
  case 0
  then show ?case by simp
next
  case (Suc k)
  show ?case
  proof (cases "1 \<le> x * 2")
    case True
    with Suc.prems show ?thesis
      by (simp add: exponent_down_one)
  next
    case False
    with Suc.prems have "0 < x * 2" "x * 2 < 1" "1 \<le> x * 2 * 2 ^ k"
      by (simp_all add: mult.assoc)
    from Suc.IH [OF this]
    have e: "exponent_down k (x * 2) < 0"
      and b: "1 \<le> x * 2 * 2 ^ nat (- exponent_down k (x * 2))"
        "x * 2 * 2 ^ nat (- exponent_down k (x * 2)) < 2"
      by simp_all
    from e have n: "nat (1 - exponent_down k (x * 2)) = Suc (nat (- exponent_down k (x * 2)))"
      by simp
    from e b Suc.prems(2) show ?thesis
      by (simp add: n mult.assoc)
  qed
qed

lemma exponent_bounds:
  assumes "pow2 (- 1100) \<le> x" and "x < pow2 1100"
  shows "pow2 (exponent x) \<le> x \<and> x < pow2 (exponent x + 1)"
proof (cases "1 \<le> x")
  case True
  from assms(2) have "x < 2 ^ 1100"
    unfolding pow2_def by simp
  from exponent_up_bounds [OF True this] True show ?thesis
    unfolding exponent_def pow2_def by (simp add: nat_add_distrib)
next
  case False
  have p: "(0::real) < 2 ^ 1100"
    by (rule zero_less_power) simp
  from assms(1) have "1 / 2 ^ 1100 \<le> x"
    unfolding pow2_def by simp
  with p have pos: "0 < x" and big: "1 \<le> x * 2 ^ 1100"
    by (auto simp only: pos_divide_le_eq intro: less_le_trans [OF divide_pos_pos [OF zero_less_one p]])
  let ?e = "exponent_down 1100 x"
  from False pos big have b: "?e < 0" "1 \<le> x * 2 ^ nat (- ?e)" "x * 2 ^ nat (- ?e) < 2"
    using exponent_down_bounds [of x 1100] by (simp_all only: not_le simp_thms)
  have ex: "exponent x = ?e"
    using False unfolding exponent_def by (simp only: if_False)
  have q: "(0::real) < 2 ^ nat (- ?e)"
    by (rule zero_less_power) simp
  from b(2) q have lo: "1 / 2 ^ nat (- ?e) \<le> x"
    by (simp only: pos_divide_le_eq)
  show ?thesis
  proof (cases "?e = - 1")
    case True
    with b lo show ?thesis
      unfolding ex pow2_def by simp
  next
    case neq: False
    with b(1) have n: "nat (- ?e) = Suc (nat (- (?e + 1)))" and neg: "?e + 1 < 0"
      by simp_all
    have r: "(0::real) < 2 ^ nat (- (?e + 1))"
      by (rule zero_less_power) simp
    from b(3) have "x * 2 ^ nat (- (?e + 1)) < 1"
      unfolding n by simp
    with r have "x < 1 / 2 ^ nat (- (?e + 1))"
      by (simp only: pos_less_divide_eq)
    with lo b(1) neg show ?thesis
      unfolding ex pow2_def by simp
  qed
qed

text \<open>The literals of lines 204 and 205 and the examples of the specification.\<close>

lemma double_literals:
  "double 0.8 = 3602879701896397 / 4503599627370496"
  "double 1.2 = 5404319552844595 / 4503599627370496"
  "double 100 = 100" "double 20 = 20" "double 50000 = 50000" "double 40000 = 40000"
  by (simp_all add: float_defs)

subsection \<open>Strings\<close>

lemma upper_char_idem: "upper_char (upper_char c) = upper_char c"
  unfolding upper_char_def upper_table_def
  by (simp split: option.splits if_splits)

lemma upper_idem: "upper (upper s) = upper s"
  by (simp add: upper_def upper_char_idem)

lemma endswith_USDT:
  "endswith s ''USDT'' = (4 \<le> length s \<and> drop (length s - 4) s = ''USDT'')"
  by (simp add: endswith_def eval_nat_numeral)

text \<open>The quote asset is \<open>USDT\<close> for every symbol, on either branch of line 154.\<close>

lemma quote_asset_of_USDT: "quote_asset_of symbol = ''USDT''"
  by (simp add: quote_asset_of_def endswith_USDT slice_from_def slice_bound_def
        nat_diff_distrib')

lemma base_asset_of_USDT:
  "endswith symbol ''USDT'' \<Longrightarrow> base_asset_of symbol = take (length symbol - 4) symbol"
  by (simp add: base_asset_of_def endswith_USDT slice_to_def slice_bound_def nat_diff_distrib')

text \<open>
  Off the \<open>USDT\<close> branch, \<open>symbol[:len(symbol)-3]\<close> drops the last three
  characters unless the symbol has exactly two: then the bound is \<open>-1\<close>.
\<close>

lemma base_asset_of_other:
  "\<not> endswith symbol ''USDT'' \<Longrightarrow> length symbol \<noteq> 2 \<Longrightarrow>
     base_asset_of symbol = take (length symbol - 3) symbol"
  by (simp add: base_asset_of_def slice_to_def slice_bound_def nat_diff_distrib')

subsection \<open>Sequencing\<close>

lemma and_then_simps [simp]:
  "and_then (t, Inl e) f = (t, Inl e)"
  "and_then (t, Inr x) f = (t @ fst (f x), snd (f x))"
  "and_then (ret x) f = f x"
  "and_then (raise e) f = raise e"
  by (simp_all add: and_then_def ret_def raise_def split: prod.splits)

lemma client_call_simps [simp]:
  "client_call c (Inl e) = ([c], Inl (Client e))"
  "client_call c (Inr x) = ([c], Inr x)"
  by (simp_all add: client_call_def)

lemma client_call_fst [simp]: "fst (client_call c r) = [c]"
  by (simp add: client_call_def)

lemma client_call_snd_Inl:
  "snd (client_call c r) = Inl e \<Longrightarrow> \<not> is_validation_error e"
  by (cases r) auto

lemma fst_and_then:
  "fst (and_then m f) = (case snd m of Inl e \<Rightarrow> fst m | Inr x \<Rightarrow> fst m @ fst (f x))"
  by (cases m) (simp add: and_then_def split: sum.splits prod.splits)

lemma snd_and_then:
  "snd (and_then m f) = (case snd m of Inl e \<Rightarrow> Inl e | Inr x \<Rightarrow> snd (f x))"
  by (cases m) (simp add: and_then_def split: sum.splits prod.splits)

subsection \<open>The balance check\<close>

lemma free_balance_nonneg: "\<forall>b\<in>set bs. 0 \<le> free b \<Longrightarrow> 0 \<le> free_balance a bs"
  by (induction bs) auto

lemma free_balance_locked:
  "free_balance a (map (\<lambda>b. b\<lparr>locked := l b\<rparr>) bs) = free_balance a bs"
  by (induction bs) auto

lemma buy_guard_nonneg:
  "0 \<le> held \<Longrightarrow> (ref = 0 \<Longrightarrow> req \<le> 0) \<Longrightarrow>
   buy_guard qa ba held ref req =
     (if held < req then Inl (Insufficient_balance_buy held qa req (held / ref) ba)
      else Inr ())"
  by (auto simp: buy_guard_def)

lemma check_balance_buy_market:
  "get_account cl = Inr bs \<Longrightarrow> get_symbol_ticker cl (upper symbol) = Inr m \<Longrightarrow>
   check_balance cl symbol ''BUY'' ''MARKET'' q price =
     ([Call_get_account, Call_get_symbol_ticker (upper symbol)],
      buy_guard (quote_asset_of symbol) (base_asset_of symbol)
        (free_balance (quote_asset_of symbol) bs) m (q * m * 1.01))"
  by (simp add: check_balance_def get_current_price_def pure_step_def ret_def Let_def)

lemma check_balance_buy_other:
  "get_account cl = Inr bs \<Longrightarrow> order_type \<noteq> ''MARKET'' \<Longrightarrow>
   check_balance cl symbol ''BUY'' order_type q (Some p) =
     ([Call_get_account],
      buy_guard (quote_asset_of symbol) (base_asset_of symbol)
        (free_balance (quote_asset_of symbol) bs) p (q * p))"
  by (simp add: check_balance_def pure_step_def ret_def Let_def)

lemma check_balance_sell:
  "get_account cl = Inr bs \<Longrightarrow> side \<noteq> ''BUY'' \<Longrightarrow>
   check_balance cl symbol side order_type q price =
     ([Call_get_account],
      sell_guard (base_asset_of symbol) (free_balance (base_asset_of symbol) bs) q)"
  by (simp add: check_balance_def pure_step_def Let_def)

lemma check_balance_locked:
  "get_account cl = Inr bs \<Longrightarrow>
   check_balance (cl\<lparr>get_account := Inr (map (\<lambda>b. b\<lparr>locked := l b\<rparr>) bs)\<rparr>)
     symbol side order_type q price =
   check_balance cl symbol side order_type q price"
  by (simp add: check_balance_def get_current_price_def free_balance_locked Let_def)

lemma check_balance_trace:
  "list_all is_query (fst (check_balance cl symbol side order_type q price))"
  by (cases "get_account cl"; cases "get_symbol_ticker cl (upper symbol)"; cases price)
     (simp_all add: check_balance_def get_current_price_def pure_step_def ret_def raise_def
        Let_def)

lemma check_balance_starts:
  "take 1 (fst (check_balance cl symbol side order_type q price)) = [Call_get_account]"
  by (cases "get_account cl"; cases "get_symbol_ticker cl (upper symbol)"; cases price)
     (simp_all add: check_balance_def get_current_price_def pure_step_def ret_def raise_def
        Let_def)

lemma check_balance_not_market:
  "order_type \<noteq> ''MARKET'' \<Longrightarrow>
   fst (check_balance cl symbol side order_type q price) = [Call_get_account]"
  by (cases "get_account cl"; cases price)
     (simp_all add: check_balance_def pure_step_def ret_def raise_def Let_def)

lemma check_balance_errors:
  "snd (check_balance cl symbol side order_type q price) = Inl e \<Longrightarrow>
   e \<noteq> ValueError_side \<and> e \<noteq> ValueError_order_type"
  by (cases "get_account cl"; cases "get_symbol_ticker cl (upper symbol)"; cases price)
     (auto simp: check_balance_def get_current_price_def pure_step_def ret_def raise_def
        Let_def buy_guard_def sell_guard_def split: if_splits)

subsection \<open>The price check and the order parameters\<close>

lemma check_price_trace:
  "list_all is_query (fst (check_price cl symbol order_type price))"
  by (cases "get_symbol_ticker cl (upper symbol)"; cases price)
     (simp_all add: check_price_def get_current_price_def pure_step_def ret_def)

lemma check_price_errors:
  "snd (check_price cl symbol order_type price) = Inl e \<Longrightarrow>
   e \<noteq> ValueError_side \<and> e \<noteq> ValueError_order_type"
  by (cases "get_symbol_ticker cl (upper symbol)"; cases price)
     (auto simp: check_price_def get_current_price_def pure_step_def ret_def price_guard_def
        split: if_splits)

lemma build_errors:
  "build_order_params symbol side order_type q price stop_price tif = Inl e \<Longrightarrow>
   e \<noteq> ValueError_side \<and> e \<noteq> ValueError_order_type"
  by (auto simp: build_order_params_def Let_def split: if_splits option.splits)

subsection \<open>\<open>place_order\<close>\<close>

text \<open>Once side and type are accepted, the stages run in this order.\<close>

lemma place_order_try_valid:
  "upper side \<in> set [''BUY'', ''SELL''] \<Longrightarrow> upper order_type \<in> set valid_order_types \<Longrightarrow>
   place_order_try cl symbol side order_type q price stop_price tif =
     and_then (check_balance cl (upper symbol) (upper side) (upper order_type) q price) (\<lambda>_.
     and_then (check_price cl (upper symbol) (upper order_type) price) (\<lambda>_.
     and_then (pure_step (build_order_params (upper symbol) (upper side) (upper order_type) q
                            price stop_price tif)) (\<lambda>order_params.
     and_then (client_call (Call_create_order order_params)
                 (create_order cl order_params)) (\<lambda>order_response.
     and_then (get_order_details cl (upper symbol) (orderId order_response)) (\<lambda>order_details.
     ret (order_response, order_details))))))"
  by (auto simp: place_order_try_def Let_def)

lemma place_order_try_invalid:
  "\<not> (upper side \<in> set [''BUY'', ''SELL''] \<and> upper order_type \<in> set valid_order_types) \<Longrightarrow>
   fst (place_order_try cl symbol side order_type q price stop_price tif) = []"
  by (auto simp: place_order_try_def Let_def raise_def)

lemma place_order_try_invalid_error:
  "\<not> (upper side \<in> set [''BUY'', ''SELL''] \<and> upper order_type \<in> set valid_order_types) \<Longrightarrow>
   snd (place_order_try cl symbol side order_type q price stop_price tif) = Inl ValueError_side \<or>
   snd (place_order_try cl symbol side order_type q price stop_price tif) =
     Inl ValueError_order_type"
  by (auto simp: place_order_try_def Let_def raise_def)

lemma place_order_try_starts:
  assumes "upper side \<in> set [''BUY'', ''SELL'']" and "upper order_type \<in> set valid_order_types"
  shows "take 1 (fst (place_order_try cl symbol side order_type q price stop_price tif)) =
           [Call_get_account]"
proof -
  obtain t where "fst (check_balance cl (upper symbol) (upper side) (upper order_type) q price) =
      Call_get_account # t"
    using check_balance_starts [of cl "upper symbol" "upper side" "upper order_type" q price]
    by (cases "fst (check_balance cl (upper symbol) (upper side) (upper order_type) q price)")
       auto
  then show ?thesis
    by (simp add: place_order_try_valid [OF assms] fst_and_then split: sum.splits)
qed

lemma place_order_try_validation:
  assumes "snd (place_order_try cl symbol side order_type q price stop_price tif) = Inl e"
    and "is_validation_error e"
  shows "list_all is_query
           (fst (place_order_try cl symbol side order_type q price stop_price tif)) \<and>
         (e = ValueError_side \<or> e = ValueError_order_type \<longrightarrow>
            fst (place_order_try cl symbol side order_type q price stop_price tif) = [])"
proof (cases "upper side \<in> set [''BUY'', ''SELL''] \<and> upper order_type \<in> set valid_order_types")
  case False
  then show ?thesis
    by (simp add: place_order_try_invalid)
next
  case True
  note eq = place_order_try_valid
      [where side = side and order_type = order_type and cl = cl and symbol = symbol
         and q = q and price = price and stop_price = stop_price and tif = tif]
  from True assms eq show ?thesis
    using check_balance_trace [of cl "upper symbol" "upper side" "upper order_type" q price]
      check_price_trace [of cl "upper symbol" "upper order_type" price]
      check_balance_errors [of cl "upper symbol" "upper side" "upper order_type" q price]
      check_price_errors [of cl "upper symbol" "upper order_type" price]
      build_errors [of "upper symbol" "upper side" "upper order_type" q price stop_price tif]
    by (auto simp: fst_and_then snd_and_then pure_step_def ret_def get_order_details_def
          split: sum.splits dest: client_call_snd_Inl)
qed

lemma handle_Failed: "handle e' = Failed_to_place_order e \<Longrightarrow> e' = e"
  by (erule handle.elims) auto

lemma fst_place_order:
  "fst (place_order cl symbol side order_type q price stop_price tif) =
   fst (place_order_try cl symbol side order_type q price stop_price tif)"
  by (simp add: place_order_def split: prod.splits sum.splits)

lemma snd_place_order:
  "snd (place_order cl symbol side order_type q price stop_price tif) =
   (case snd (place_order_try cl symbol side order_type q price stop_price tif) of
      Inl e \<Rightarrow> Inl (handle e) | Inr r \<Rightarrow> Inr r)"
  by (simp add: place_order_def split: prod.splits sum.splits)

section \<open>The claims\<close>

subsection \<open>C1: the price deviation guard\<close>

text \<open>
  The guard on a LIMIT order with a price, when the ticker answers with a market price
  other than zero: it rejects exactly when the deviation that line 201 computes exceeds
  20, and the rejection carries the band of lines 204 and 205.
\<close>

lemma check_price_limit:
  assumes "get_symbol_ticker cl (upper symbol) = Inr m" and "m \<noteq> 0"
  shows "snd (check_price cl symbol ''LIMIT'' (Some p)) =
           (if 20 < price_deviation p m
            then Inl (Price_too_far p m (float_mul m (double 0.8)) (float_mul m (double 1.2)))
            else Inr ())"
  using assms
  by (simp add: check_price_def get_current_price_def pure_step_def price_guard_def)

text \<open>
  The examples of the specification, at a market price of 50000: the price 39999.99 is
  rejected with the band from 40000 to 60000, the prices 40000 (deviation exactly 20) and
  40000.01 are accepted.
\<close>

lemma check_price_limit_examples:
  "snd (check_price (fixed_client [] 50000) ''BTCUSDT'' ''LIMIT'' (Some (double 39999.99))) =
     Inl (Price_too_far (double 39999.99) 50000 40000 60000)"
  "price_deviation 40000 50000 = 20"
  "snd (check_price (fixed_client [] 50000) ''BTCUSDT'' ''LIMIT'' (Some 40000)) = Inr ()"
  "snd (check_price (fixed_client [] 50000) ''BTCUSDT'' ''LIMIT'' (Some (double 40000.01))) =
     Inr ()"
  by (simp_all add: check_price_def get_current_price_def pure_step_def price_guard_def
        fixed_client_def float_defs)

text \<open>
  Rounding decides either way at the boundary: at a market price of 61537 the price
  49229.6 lies more than 20 percent away in exact arithmetic, yet its computed deviation
  is exactly 20 and the order is accepted.
\<close>

lemma price_deviation_rounds_down:
  "20 < \<bar>double 49229.6 - 61537\<bar> / 61537 * 100"
  "price_deviation (double 49229.6) 61537 = 20"
  "snd (check_price (fixed_client [] 61537) ''BTCUSDT'' ''LIMIT'' (Some (double 49229.6))) =
     Inr ()"
  by (simp_all add: check_price_def get_current_price_def pure_step_def price_guard_def
        fixed_client_def float_defs)


subsection \<open>C2: the balance guard\<close>

text \<open>
  The balance check on orders that carry what line 170 or 173 multiplies. With the
  account fetched and free balances that are not negative: a BUY MARKET order needs
  \<open>quantity * market price * 1.01\<close> of the quote asset, a BUY of any other type with a
  price needs \<open>quantity * price\<close> of it, a SELL needs \<open>quantity\<close> of the base asset;
  the amount is compared with the free balance of that asset, the order is rejected for
  insufficient balance exactly when the free balance is smaller, and the locked amounts
  play no part.
\<close>

lemma balance_guard_with_price:
  assumes acc: "get_account cl = Inr bs" and nonneg: "\<forall>b\<in>set bs. 0 \<le> free b"
  shows
    "(get_symbol_ticker cl (upper symbol) = Inr m \<longrightarrow>
        snd (check_balance cl symbol ''BUY'' ''MARKET'' q price) =
          (if free_balance (quote_asset_of symbol) bs < q * m * 1.01
           then Inl (Insufficient_balance_buy (free_balance (quote_asset_of symbol) bs)
                       (quote_asset_of symbol) (q * m * 1.01)
                       (free_balance (quote_asset_of symbol) bs / m) (base_asset_of symbol))
           else Inr ())) \<and>
     (order_type \<noteq> ''MARKET'' \<longrightarrow>
        snd (check_balance cl symbol ''BUY'' order_type q (Some p)) =
          (if free_balance (quote_asset_of symbol) bs < q * p
           then Inl (Insufficient_balance_buy (free_balance (quote_asset_of symbol) bs)
                       (quote_asset_of symbol) (q * p)
                       (free_balance (quote_asset_of symbol) bs / p) (base_asset_of symbol))
           else Inr ())) \<and>
     snd (check_balance cl symbol ''SELL'' order_type q price) =
          (if free_balance (base_asset_of symbol) bs < q
           then Inl (Insufficient_balance_sell (free_balance (base_asset_of symbol) bs)
                       (base_asset_of symbol) q)
           else Inr ()) \<and>
     check_balance (cl\<lparr>get_account := Inr (map (\<lambda>b. b\<lparr>locked := l b\<rparr>) bs)\<rparr>)
       symbol side order_type q price =
     check_balance cl symbol side order_type q price"
proof -
  have held: "0 \<le> free_balance a bs" for a
    using nonneg by (rule free_balance_nonneg)
  have market: "get_symbol_ticker cl (upper symbol) = Inr m \<Longrightarrow>
        snd (check_balance cl symbol ''BUY'' ''MARKET'' q price) =
          (if free_balance (quote_asset_of symbol) bs < q * m * 1.01
           then Inl (Insufficient_balance_buy (free_balance (quote_asset_of symbol) bs)
                       (quote_asset_of symbol) (q * m * 1.01)
                       (free_balance (quote_asset_of symbol) bs / m) (base_asset_of symbol))
           else Inr ())"
    using buy_guard_nonneg [OF held, where ref = m and req = "q * m * 1.01"]
    by (simp add: check_balance_buy_market [OF acc])
  have other: "order_type \<noteq> ''MARKET'' \<Longrightarrow>
        snd (check_balance cl symbol ''BUY'' order_type q (Some p)) =
          (if free_balance (quote_asset_of symbol) bs < q * p
           then Inl (Insufficient_balance_buy (free_balance (quote_asset_of symbol) bs)
                       (quote_asset_of symbol) (q * p)
                       (free_balance (quote_asset_of symbol) bs / p) (base_asset_of symbol))
           else Inr ())"
    using buy_guard_nonneg [OF held, where ref = p and req = "q * p"]
    by (simp add: check_balance_buy_other [OF acc])
  have sell: "snd (check_balance cl symbol ''SELL'' order_type q price) =
          (if free_balance (base_asset_of symbol) bs < q
           then Inl (Insufficient_balance_sell (free_balance (base_asset_of symbol) bs)
                       (base_asset_of symbol) q)
           else Inr ())"
    by (simp add: check_balance_sell [OF acc] sell_guard_def)
  from market other sell check_balance_locked [OF acc] show ?thesis
    by blast
qed

text \<open>
  A BUY of a type other than MARKET that carries no price never reaches the comparison:
  line 173 raises \<open>TypeError\<close> once the account is fetched, whatever the balances.
\<close>

lemma check_balance_buy_no_price:
  "get_account cl = Inr bs \<Longrightarrow> order_type \<noteq> ''MARKET'' \<Longrightarrow>
   check_balance cl symbol ''BUY'' order_type q None = ([Call_get_account], Inl TypeError)"
  by (simp add: check_balance_def raise_def Let_def)

text \<open>
  Claim C2 at a BUY STOP_MARKET order without a price (a stop-market order has a stop
  price only), with 1000000 USDT free and a market price of 50000: the order for 1 BTC is
  refused with the \<open>TypeError\<close> of line 173 although the balance is ample, where the
  claim has a BUY rejected exactly when the free balance is too small; the same order
  with a price of 50000 passes the balance check.
\<close>

theorem buy_stop_market_no_price:
  "place_order (fixed_client [\<lparr>asset = ''USDT'', free = 1000000, locked = 0\<rparr>] 50000)
     ''BTCUSDT'' ''BUY'' ''STOP_MARKET'' 1 None (Some 48000) ''GTC'' =
   ([Call_get_account], Inl (Failed_to_place_order TypeError)) \<and>
   check_balance (fixed_client [\<lparr>asset = ''USDT'', free = 1000000, locked = 0\<rparr>] 50000)
     ''BTCUSDT'' ''BUY'' ''STOP_MARKET'' 1 (Some 50000) = ([Call_get_account], Inr ())"
  by (simp add: eval_defs)

subsection \<open>C3: what an insufficient-balance rejection reports\<close>

text \<open>
  Claim C3, as stated, fails: a SELL of 2 BTC with 1 BTC free, at a market price of
  50000, is rejected with a suggestion of 1 BTC, the balance held, and not of that
  balance divided by the price.
\<close>

theorem suggested_quantity_counterexample:
  "snd (check_balance (fixed_client [\<lparr>asset = ''BTC'', free = 1, locked = 0\<rparr>] 50000)
          ''BTCUSDT'' ''SELL'' ''MARKET'' 2 None) =
     Inl (Insufficient_balance_sell 1 ''BTC'' 2) \<and>
   balance_diagnostic (Insufficient_balance_sell 1 ''BTC'' 2) = Some (''BTC'', 1, 2, 1) \<and>
   (1 :: real) \<noteq> 1 / 50000"
  by (simp add: check_balance_def pure_step_def Let_def fixed_client_def base_asset_of_def
        endswith_def slice_to_def slice_bound_def sell_guard_def)

text \<open>
  Claim C3, amended. Whenever the balance check rejects with an insufficient-balance
  message, the message shows the asset held, the free amount held and the amount
  required, and it suggests a quantity: for a BUY of a type other than MARKET the free
  quote balance divided by the order's price, shown with six decimals; for a SELL the free
  base balance itself. (What a BUY MARKET rejection suggests is left open here.)
\<close>

theorem balance_rejection_diagnostic:
  assumes acc: "get_account cl = Inr bs"
    and rej: "snd (check_balance cl symbol side order_type q price) = Inl e"
    and diag: "balance_diagnostic e = Some d"
  shows
    "(side = ''BUY'' \<longrightarrow> order_type = ''MARKET'' \<longrightarrow>
        get_symbol_ticker cl (upper symbol) = Inr m \<longrightarrow>
        (fst d, fst (snd d), fst (snd (snd d))) =
          (quote_asset_of symbol, free_balance (quote_asset_of symbol) bs, q * m * 1.01)) \<and>
     (side = ''BUY'' \<longrightarrow> order_type \<noteq> ''MARKET'' \<longrightarrow> price = Some p \<longrightarrow>
        d = (quote_asset_of symbol, free_balance (quote_asset_of symbol) bs, q * p,
             format_6f (free_balance (quote_asset_of symbol) bs / p))) \<and>
     (side \<noteq> ''BUY'' \<longrightarrow>
        d = (base_asset_of symbol, free_balance (base_asset_of symbol) bs, q,
             free_balance (base_asset_of symbol) bs))"
proof (intro conjI impI)
  assume "side = ''BUY''" "order_type = ''MARKET''"
    "get_symbol_ticker cl (upper symbol) = Inr m"
  with rej diag show "(fst d, fst (snd d), fst (snd (snd d))) =
      (quote_asset_of symbol, free_balance (quote_asset_of symbol) bs, q * m * 1.01)"
    by (auto simp: check_balance_buy_market [OF acc] buy_guard_def split: if_splits)
next
  assume "side = ''BUY''" "order_type \<noteq> ''MARKET''" "price = Some p"
  with rej diag show "d = (quote_asset_of symbol, free_balance (quote_asset_of symbol) bs,
      q * p, format_6f (free_balance (quote_asset_of symbol) bs / p))"
    by (auto simp: check_balance_buy_other [OF acc] buy_guard_def split: if_splits)
next
  assume "side \<noteq> ''BUY''"
  with rej diag show "d = (base_asset_of symbol, free_balance (base_asset_of symbol) bs, q,
      free_balance (base_asset_of symbol) bs)"
    by (auto simp: check_balance_sell [OF acc] sell_guard_def split: if_splits)
qed

theorem balance_rejection_diagnostic_witness:
  "get_account (fixed_client [\<lparr>asset = ''USDT'', free = 20, locked = 0\<rparr>] 50000) =
     Inr [\<lparr>asset = ''USDT'', free = 20, locked = 0\<rparr>] \<and>
   snd (check_balance (fixed_client [\<lparr>asset = ''USDT'', free = 20, locked = 0\<rparr>] 50000)
          ''BTCUSDT'' ''BUY'' ''LIMIT'' 10 (Some 3)) =
     Inl (Insufficient_balance_buy 20 ''USDT'' 30 (20 / 3) ''BTC'') \<and>
   balance_diagnostic (Insufficient_balance_buy 20 ''USDT'' 30 (20 / 3) ''BTC'') =
     Some (''USDT'', 20, 30, 6.666667) \<and>
   format_6f (20 / 3) = 6.666667"
proof -
  have acc: "get_account (fixed_client [\<lparr>asset = ''USDT'', free = 20, locked = 0\<rparr>] 50000) =
     Inr [\<lparr>asset = ''USDT'', free = 20, locked = 0\<rparr>]"
    by (simp add: fixed_client_def)
  have rej: "snd (check_balance (fixed_client [\<lparr>asset = ''USDT'', free = 20, locked = 0\<rparr>] 50000)
          ''BTCUSDT'' ''BUY'' ''LIMIT'' 10 (Some 3)) =
     Inl (Insufficient_balance_buy 20 ''USDT'' 30 (20 / 3) ''BTC'')"
    by (simp add: check_balance_def pure_step_def ret_def Let_def fixed_client_def
          quote_asset_of_def base_asset_of_def endswith_def slice_to_def slice_from_def
          slice_bound_def buy_guard_def)
  have fmt: "format_6f (20 / 3) = 6.666667"
    by (simp add: format_6f_def round_half_even_def Let_def)
  then have diag: "balance_diagnostic (Insufficient_balance_buy 20 ''USDT'' 30 (20 / 3) ''BTC'') =
     Some (''USDT'', 20, 30, 6.666667)"
    by simp
  from balance_rejection_diagnostic
    [OF acc rej diag, where p = 3] acc rej diag fmt
  show ?thesis
    by simp
qed

text \<open>
  The BUY MARKET order of the specification (10 USDT free, market price 50000, quantity
  0.001) is rejected with a suggestion of \<open>10 / 50000\<close>, shown as 0.000200: line 176
  divides by the market price without the factor 1.01 of line 170. An order for exactly
  the quantity suggested is therefore rejected again (it needs 10.1 USDT), while one
  for 0.000198 is not.
\<close>

lemma buy_market_suggestion:
  "snd (check_balance (fixed_client [\<lparr>asset = ''USDT'', free = 10, locked = 0\<rparr>] 50000)
          ''BTCUSDT'' ''BUY'' ''MARKET'' 0.001 None) =
     Inl (Insufficient_balance_buy 10 ''USDT'' 50.5 (10 / 50000) ''BTC'')"
  "format_6f (10 / 50000) = 0.0002"
  "snd (check_balance (fixed_client [\<lparr>asset = ''USDT'', free = 10, locked = 0\<rparr>] 50000)
          ''BTCUSDT'' ''BUY'' ''MARKET'' 0.0002 None) =
     Inl (Insufficient_balance_buy 10 ''USDT'' 10.1 (10 / 50000) ''BTC'')"
  "snd (check_balance (fixed_client [\<lparr>asset = ''USDT'', free = 10, locked = 0\<rparr>] 50000)
          ''BTCUSDT'' ''BUY'' ''MARKET'' 0.000198 None) = Inr ()"
  by (simp_all add: check_balance_def get_current_price_def pure_step_def ret_def Let_def
        fixed_client_def quote_asset_of_def base_asset_of_def endswith_def
        slice_to_def slice_from_def slice_bound_def buy_guard_def
        upper_def upper_char_def upper_table_def format_6f_def round_half_even_def)

subsection \<open>C4: the order parameters of LIMIT and MARKET orders\<close>

text \<open>
  Claim C4. Building the parameters of a LIMIT order without a price fails with the
  \<open>ValueError\<close> "Price is required for LIMIT orders"; building those of a MARKET order
  succeeds whatever price and stop price are supplied, and the parameters hold neither.
\<close>

theorem build_limit_market:
  "build_order_params symbol side ''LIMIT'' quantity None stop_price time_in_force =
     Inl ValueError_price_required \<and>
   build_order_params symbol side ''MARKET'' quantity price stop_price time_in_force =
     Inr \<lparr>p_symbol = symbol, p_side = side, p_type = ''MARKET'', p_quantity = quantity,
          p_price = None, p_timeInForce = None, p_stopPrice = None\<rparr>"
  by (simp add: build_order_params_def stop_order_types_def)

theorem build_limit_market_witness:
  "build_order_params ''BTCUSDT'' ''BUY'' ''LIMIT'' 0.001 None (Some 48000) ''GTC'' =
     Inl ValueError_price_required \<and>
   build_order_params ''BTCUSDT'' ''BUY'' ''MARKET'' 0.001 (Some 50000) (Some 48000) ''GTC'' =
     Inr \<lparr>p_symbol = ''BTCUSDT'', p_side = ''BUY'', p_type = ''MARKET'', p_quantity = 0.001,
          p_price = None, p_timeInForce = None, p_stopPrice = None\<rparr>"
  using build_limit_market
    [of "''BTCUSDT''" "''BUY''" "0.001" "Some 48000" "''GTC''" "Some 50000"]
  by simp

subsection \<open>C5: the asset pair of a symbol\<close>

text \<open>
  Claim C5 at the symbol \<open>AB\<close>, which does not end in \<open>USDT\<close>: the base asset computed
  is \<open>A\<close>, whereas the symbol with its last three characters removed is empty. (The
  lemmas \<open>quote_asset_of_USDT\<close>, \<open>base_asset_of_USDT\<close> and \<open>base_asset_of_other\<close>
  above give the claim for every symbol that does not have exactly two characters.)
\<close>

theorem base_asset_two_chars:
  "\<not> endswith ''AB'' ''USDT'' \<and> base_asset_of ''AB'' = ''A'' \<and>
   take (length ''AB'' - 3) ''AB'' = [] \<and> quote_asset_of ''AB'' = ''USDT''"
  by (simp add: base_asset_of_def quote_asset_of_def endswith_def slice_to_def slice_bound_def)

subsection \<open>C6: putting base and quote asset together again\<close>

text \<open>
  Claim C6, as stated, fails: for \<open>BTCETH\<close> the base asset is \<open>BTC\<close> and the quote asset
  \<open>USDT\<close>, which do not make up the symbol.
\<close>

theorem reconstruct_counterexample:
  "base_asset_of ''BTCETH'' @ quote_asset_of ''BTCETH'' \<noteq> ''BTCETH''"
  by (simp add: base_asset_of_def quote_asset_of_def endswith_def slice_to_def slice_bound_def)

text \<open>
  Claim C6, amended. Base asset followed by quote asset is the symbol again exactly for
  the symbols that end in \<open>USDT\<close>.
\<close>

theorem reconstruct_iff_USDT:
  "(base_asset_of symbol @ quote_asset_of symbol = symbol) = endswith symbol ''USDT''"
proof (cases "endswith symbol ''USDT''")
  case True
  then have "take (length symbol - 4) symbol @ ''USDT'' = symbol"
    by (metis endswith_USDT append_take_drop_id)
  with True show ?thesis
    by (simp add: base_asset_of_USDT quote_asset_of_USDT)
next
  case False
  have "endswith (b @ ''USDT'') ''USDT''" for b :: string
    by (simp add: endswith_USDT)
  with False have "base_asset_of symbol @ ''USDT'' \<noteq> symbol"
    by metis
  with False show ?thesis
    by (simp add: quote_asset_of_USDT)
qed

theorem reconstruct_iff_USDT_witness:
  "endswith ''BTCUSDT'' ''USDT'' \<and>
   base_asset_of ''BTCUSDT'' @ quote_asset_of ''BTCUSDT'' = ''BTCUSDT''"
  using reconstruct_iff_USDT [of "''BTCUSDT''"] by (simp add: endswith_def)

subsection \<open>C7: the empty symbol\<close>

text \<open>
  Claim C7, as stated, fails: with an exchange that answers, a BUY MARKET order for the
  empty symbol passes every check and is submitted with the empty symbol.
\<close>

theorem empty_symbol_counterexample:
  "place_order (fixed_client [\<lparr>asset = ''USDT'', free = 100, locked = 0\<rparr>] 1)
     [] ''BUY'' ''MARKET'' 1 None None ''GTC'' =
   ([Call_get_account, Call_get_symbol_ticker [],
     Call_create_order \<lparr>p_symbol = [], p_side = ''BUY'', p_type = ''MARKET'', p_quantity = 1,
        p_price = None, p_timeInForce = None, p_stopPrice = None\<rparr>,
     Call_get_order [] 1],
    Inr (\<lparr>orderId = 1\<rparr>, []))"
  by (simp add: eval_defs)

text \<open>
  Claim C7, amended. The empty symbol is not rejected: its base asset is the empty string
  and its quote asset \<open>USDT\<close>, and once side and type are accepted \<open>place_order\<close> goes
  on to fetch the account for it.
\<close>

theorem empty_symbol_resolves:
  "base_asset_of [] = [] \<and> quote_asset_of [] = ''USDT'' \<and>
   (upper side \<in> set [''BUY'', ''SELL''] \<longrightarrow> upper order_type \<in> set valid_order_types \<longrightarrow>
      take 1 (fst (place_order cl [] side order_type q price stop_price tif)) =
        [Call_get_account])"
proof -
  have "take 1 (fst (and_then (check_balance cl s sd ot q price) f)) = [Call_get_account]"
    for s sd ot and f :: "unit \<Rightarrow> (order_response \<times> order_details) io"
  proof -
    obtain t where "fst (check_balance cl s sd ot q price) = Call_get_account # t"
      using check_balance_starts [of cl s sd ot q price]
      by (cases "fst (check_balance cl s sd ot q price)") auto
    then show ?thesis
      by (simp add: fst_and_then split: sum.splits)
  qed
  then show ?thesis
    by (auto simp: fst_place_order place_order_try_valid base_asset_of_def quote_asset_of_def
          endswith_def slice_to_def slice_bound_def simp del: take_Suc_Cons)
qed

theorem empty_symbol_resolves_witness:
  "upper ''sell'' \<in> set [''BUY'', ''SELL''] \<and> upper ''market'' \<in> set valid_order_types \<and>
   take 1 (fst (place_order (fixed_client [] 1) [] ''sell'' ''market'' 0 None None ''GTC'')) =
     [Call_get_account]"
  using empty_symbol_resolves
    [of "''sell''" "''market''" "fixed_client [] 1" 0 None None "''GTC''"]
  by (simp add: upper_def upper_char_def upper_table_def valid_order_types_def)

subsection \<open>C8: rejections and gateway calls\<close>

text \<open>
  Claim C8, as stated, fails: the insufficient-balance rejection of a BUY MARKET order
  is raised after two calls to the exchange, \<open>get_account\<close> and \<open>get_symbol_ticker\<close>.
\<close>

theorem validation_after_queries_counterexample:
  "place_order (fixed_client [\<lparr>asset = ''USDT'', free = 10, locked = 0\<rparr>] 50000)
     ''BTCUSDT'' ''BUY'' ''MARKET'' 0.001 None None ''GTC'' =
   ([Call_get_account, Call_get_symbol_ticker ''BTCUSDT''],
    Inl (Failed_to_place_order (Insufficient_balance_buy 10 ''USDT'' 50.5 0.0002 ''BTC'')))"
  by (simp add: eval_defs)

text \<open>
  Claim C8, amended. Whenever \<open>place_order\<close> rejects an order for a validation reason
  (side, type, missing price or stop price, insufficient balance, price deviation), the
  calls made on the exchange so far are only the queries \<open>get_account\<close> and
  \<open>get_symbol_ticker\<close>, so the order has not been submitted. A rejection for the side
  or the order type is raised before any call; every other validation error is raised
  after the account has been fetched, \<open>get_account\<close> being the first call.
\<close>

theorem rejection_precedes_submission:
  assumes "snd (place_order cl symbol side order_type q price stop_price tif) =
             Inl (Failed_to_place_order e)"
    and "is_validation_error e"
  shows "list_all is_query (fst (place_order cl symbol side order_type q price stop_price tif)) \<and>
         \<not> list_ex is_create_order
             (fst (place_order cl symbol side order_type q price stop_price tif)) \<and>
         (e = ValueError_side \<or> e = ValueError_order_type \<longrightarrow>
            fst (place_order cl symbol side order_type q price stop_price tif) = []) \<and>
         (e \<noteq> ValueError_side \<and> e \<noteq> ValueError_order_type \<longrightarrow>
            take 1 (fst (place_order cl symbol side order_type q price stop_price tif)) =
              [Call_get_account])"
proof -
  from assms(1)
  have rej: "snd (place_order_try cl symbol side order_type q price stop_price tif) = Inl e"
    by (auto simp: snd_place_order split: sum.splits dest: handle_Failed)
  from place_order_try_validation [OF this assms(2)]
  have *: "list_all is_query (fst (place_order cl symbol side order_type q price stop_price tif))"
    and **: "e = ValueError_side \<or> e = ValueError_order_type \<longrightarrow>
            fst (place_order cl symbol side order_type q price stop_price tif) = []"
    by (simp_all add: fst_place_order)
  have "is_query c \<Longrightarrow> \<not> is_create_order c" for c
    by (cases c) simp_all
  with * have ***: "\<not> list_ex is_create_order
             (fst (place_order cl symbol side order_type q price stop_price tif))"
    by (auto simp: list_all_iff list_ex_iff)
  have "take 1 (fst (place_order cl symbol side order_type q price stop_price tif)) =
          [Call_get_account]"
    if "e \<noteq> ValueError_side \<and> e \<noteq> ValueError_order_type"
  proof (cases "upper side \<in> set [''BUY'', ''SELL''] \<and> upper order_type \<in> set valid_order_types")
    case True
    then have "take 1 (fst (place_order_try cl symbol side order_type q price stop_price tif)) =
        [Call_get_account]"
      by (intro place_order_try_starts) simp_all
    then show ?thesis
      by (simp only: fst_place_order)
  next
    case False
    from place_order_try_invalid_error [OF False, of cl symbol q price stop_price tif] rej that
    show ?thesis
      by auto
  qed
  with * ** *** show ?thesis
    by blast
qed

theorem rejection_precedes_submission_witness:
  "snd (place_order (fixed_client [\<lparr>asset = ''BTC'', free = 1, locked = 0\<rparr>] 50000)
          ''BTCUSDT'' ''SELL'' ''LIMIT'' 0.5 None None ''GTC'') =
     Inl (Failed_to_place_order ValueError_price_required) \<and>
   is_validation_error ValueError_price_required \<and>
   list_all is_query
     (fst (place_order (fixed_client [\<lparr>asset = ''BTC'', free = 1, locked = 0\<rparr>] 50000)
          ''BTCUSDT'' ''SELL'' ''LIMIT'' 0.5 None None ''GTC'')) \<and>
   \<not> list_ex is_create_order
     (fst (place_order (fixed_client [\<lparr>asset = ''BTC'', free = 1, locked = 0\<rparr>] 50000)
          ''BTCUSDT'' ''SELL'' ''LIMIT'' 0.5 None None ''GTC'')) \<and>
   take 1
     (fst (place_order (fixed_client [\<lparr>asset = ''BTC'', free = 1, locked = 0\<rparr>] 50000)
          ''BTCUSDT'' ''SELL'' ''LIMIT'' 0.5 None None ''GTC'')) = [Call_get_account]"
proof -
  have rej: "snd (place_order (fixed_client [\<lparr>asset = ''BTC'', free = 1, locked = 0\<rparr>] 50000)
          ''BTCUSDT'' ''SELL'' ''LIMIT'' 0.5 None None ''GTC'') =
     Inl (Failed_to_place_order ValueError_price_required)"
    by (simp add: eval_defs)
  have val: "is_validation_error ValueError_price_required"
    by simp
  from rejection_precedes_submission [OF rej val] rej val show ?thesis
    by simp
qed

subsection \<open>C9: the balance check comes before the price check\<close>

text \<open>
  Claim C9. For a LIMIT order with a price, with the account fetched and free balances
  that are not negative: if the balance is insufficient and the price is more than 20
  percent from the market price, \<open>place_order\<close> raises the insufficient-balance error,
  having called only \<open>get_account\<close>; and whenever the ticker has been asked for the
  market price, the balance check has passed.
\<close>

theorem balance_check_precedes_price_check:
  assumes acc: "get_account cl = Inr bs" and nonneg: "\<forall>b\<in>set bs. 0 \<le> free b"
    and lim: "upper order_type = ''LIMIT''"
    and ticker: "get_symbol_ticker cl (upper symbol) = Inr m"
    and dev: "m \<noteq> 0" "20 < \<bar>p - m\<bar> / m * 100"
  shows
    "(upper side = ''BUY'' \<longrightarrow> free_balance (quote_asset_of (upper symbol)) bs < q * p \<longrightarrow>
        place_order cl symbol side order_type q (Some p) stop_price tif =
          ([Call_get_account],
           Inl (Failed_to_place_order
                  (Insufficient_balance_buy (free_balance (quote_asset_of (upper symbol)) bs)
                     (quote_asset_of (upper symbol)) (q * p)
                     (free_balance (quote_asset_of (upper symbol)) bs / p)
                     (base_asset_of (upper symbol)))))) \<and>
     (upper side = ''SELL'' \<longrightarrow> free_balance (base_asset_of (upper symbol)) bs < q \<longrightarrow>
        place_order cl symbol side order_type q (Some p) stop_price tif =
          ([Call_get_account],
           Inl (Failed_to_place_order
                  (Insufficient_balance_sell (free_balance (base_asset_of (upper symbol)) bs)
                     (base_asset_of (upper symbol)) q)))) \<and>
     (Call_get_symbol_ticker (upper symbol) \<in>
        set (fst (place_order cl symbol side order_type q (Some p) stop_price tif)) \<longrightarrow>
        upper side \<in> set [''BUY'', ''SELL''] \<and>
        snd (check_balance cl (upper symbol) (upper side) ''LIMIT'' q (Some p)) = Inr ())"
proof (intro conjI impI)
  have valid: "upper order_type \<in> set valid_order_types"
    by (simp add: lim valid_order_types_def)
  have held: "0 \<le> free_balance a bs" for a
    using nonneg by (rule free_balance_nonneg)
  {
    assume buy: "upper side = ''BUY''"
      and low: "free_balance (quote_asset_of (upper symbol)) bs < q * p"
    from held [of "quote_asset_of (upper symbol)"] low have "p \<noteq> 0"
      by auto
    with low have "check_balance cl (upper symbol) ''BUY'' ''LIMIT'' q (Some p) =
        ([Call_get_account],
         Inl (Insufficient_balance_buy (free_balance (quote_asset_of (upper symbol)) bs)
                     (quote_asset_of (upper symbol)) (q * p)
                     (free_balance (quote_asset_of (upper symbol)) bs / p)
                     (base_asset_of (upper symbol))))"
      by (simp add: check_balance_buy_other [OF acc] buy_guard_def)
    with buy valid
    show "place_order cl symbol side order_type q (Some p) stop_price tif =
          ([Call_get_account],
           Inl (Failed_to_place_order
                  (Insufficient_balance_buy (free_balance (quote_asset_of (upper symbol)) bs)
                     (quote_asset_of (upper symbol)) (q * p)
                     (free_balance (quote_asset_of (upper symbol)) bs / p)
                     (base_asset_of (upper symbol)))))"
      by (simp add: place_order_def place_order_try_valid lim)
  }
  {
    assume sell: "upper side = ''SELL''"
      and low: "free_balance (base_asset_of (upper symbol)) bs < q"
    then have "check_balance cl (upper symbol) ''SELL'' ''LIMIT'' q (Some p) =
        ([Call_get_account],
         Inl (Insufficient_balance_sell (free_balance (base_asset_of (upper symbol)) bs)
                     (base_asset_of (upper symbol)) q))"
      by (simp add: check_balance_sell [OF acc] sell_guard_def)
    with sell valid
    show "place_order cl symbol side order_type q (Some p) stop_price tif =
          ([Call_get_account],
           Inl (Failed_to_place_order
                  (Insufficient_balance_sell (free_balance (base_asset_of (upper symbol)) bs)
                     (base_asset_of (upper symbol)) q)))"
      by (simp add: place_order_def place_order_try_valid lim)
  }
  {
    assume tick: "Call_get_symbol_ticker (upper symbol) \<in>
        set (fst (place_order cl symbol side order_type q (Some p) stop_price tif))"
    show side_ok: "upper side \<in> set [''BUY'', ''SELL'']"
    proof (rule ccontr)
      assume "upper side \<notin> set [''BUY'', ''SELL'']"
      then have "fst (place_order cl symbol side order_type q (Some p) stop_price tif) = []"
        by (simp add: fst_place_order place_order_try_invalid)
      with tick show False by simp
    qed
    show "snd (check_balance cl (upper symbol) (upper side) ''LIMIT'' q (Some p)) = Inr ()"
    proof (cases "snd (check_balance cl (upper symbol) (upper side) ''LIMIT'' q (Some p))")
      case (Inl e)
      with side_ok valid
      have "fst (place_order cl symbol side order_type q (Some p) stop_price tif) =
            [Call_get_account]"
        using check_balance_not_market [of "''LIMIT''" cl "upper symbol" "upper side" q "Some p"]
        by (simp add: fst_place_order place_order_try_valid lim fst_and_then)
      with tick show ?thesis by simp
    next
      case (Inr u)
      then show ?thesis by simp
    qed
  }
qed

theorem balance_check_precedes_price_check_witness:
  "get_account (fixed_client [\<lparr>asset = ''USDT'', free = 10, locked = 0\<rparr>] 50000) =
     Inr [\<lparr>asset = ''USDT'', free = 10, locked = 0\<rparr>] \<and>
   list_all (\<lambda>b. 0 \<le> free b) [\<lparr>asset = ''USDT'', free = 10, locked = 0\<rparr>] \<and>
   upper ''limit'' = ''LIMIT'' \<and>
   (20 :: real) < \<bar>30000 - 50000\<bar> / 50000 * 100 \<and>
   free_balance (quote_asset_of (upper ''btcusdt''))
     [\<lparr>asset = ''USDT'', free = 10, locked = 0\<rparr>] < 0.001 * 30000 \<and>
   place_order (fixed_client [\<lparr>asset = ''USDT'', free = 10, locked = 0\<rparr>] 50000)
     ''btcusdt'' ''buy'' ''limit'' 0.001 (Some 30000) None ''GTC'' =
   ([Call_get_account],
    Inl (Failed_to_place_order (Insufficient_balance_buy 10 ''USDT'' 30 (10 / 30000) ''BTC'')))"
proof -
  have up: "upper ''btcusdt'' = ''BTCUSDT''" "upper ''buy'' = ''BUY''"
    "upper ''limit'' = ''LIMIT''"
    by (simp_all add: upper_def upper_char_def upper_table_def)
  have r: "quote_asset_of ''BTCUSDT'' = ''USDT''" "base_asset_of ''BTCUSDT'' = ''BTC''"
    by (simp_all add: quote_asset_of_def base_asset_of_def endswith_def
        slice_to_def slice_from_def slice_bound_def)
  show ?thesis
    using balance_check_precedes_price_check
      [where cl = "fixed_client [\<lparr>asset = ''USDT'', free = 10, locked = 0\<rparr>] 50000"
         and bs = "[\<lparr>asset = ''USDT'', free = 10, locked = 0\<rparr>]"
         and order_type = "''limit''" and symbol = "''btcusdt''" and m = 50000 and p = 30000
         and side = "''buy''" and q = "0.001" and stop_price = None and tif = "''GTC''"]
    by (simp add: up r fixed_client_def)
qed

subsection \<open>C10: case of symbol, side and order type\<close>

text \<open>
  Claim C10. \<open>place_order\<close> gives the same calls and the same result for a symbol, a
  side and an order type as for their upper-case forms.
\<close>

theorem place_order_case_insensitive:
  "place_order cl symbol side order_type quantity price stop_price time_in_force =
   place_order cl (upper symbol) (upper side) (upper order_type) quantity price stop_price
     time_in_force"
  by (simp add: place_order_def place_order_try_def upper_idem)

theorem place_order_case_insensitive_witness:
  "place_order (fixed_client [] 50000) ''btcusdt'' ''buy'' ''market'' 1 None None ''GTC'' =
   place_order (fixed_client [] 50000) ''BTCUSDT'' ''BUY'' ''MARKET'' 1 None None ''GTC''"
  using place_order_case_insensitive
    [of "fixed_client [] 50000" "''btcusdt''" "''buy''" "''market''" 1 None None "''GTC''"]
  by (simp add: upper_def upper_char_def upper_table_def)

end
